theory Spec2Isabelle
  imports Main "HOL-Library.Sublist"
begin

section \<open>Errors and text\<close>

text \<open>
  The exceptions the two modules raise or let through. \<open>GitException\<close> and
  \<open>GoalError\<close> carry their message; the others stand for the interpreter's own
  exceptions, whose message no property below depends on.
\<close>

datatype py_error =
    GitException string
  | GoalError string
  | ValueError
  | TypeError
  | AssertionError string
  | OSError string
  | UnicodeDecodeError

text \<open>
  Text is a list of characters, bytes are what a subprocess writes. Decoding
  (\<^verbatim>\<open>bytes.decode()\<close>) belongs to the interpreter and is a parameter of the
  operating system record below; it fails on input that is not valid UTF-8.
\<close>

type_synonym str = string
type_synonym bytes = "char list"

subsection \<open>\<^verbatim>\<open>"docker" in text\<close>\<close>

fun contains :: "str \<Rightarrow> str \<Rightarrow> bool" where
  "contains sub [] = (sub = [])"
| "contains sub (c # cs) = (prefix sub (c # cs) \<or> contains sub cs)"

section \<open>\<^verbatim>\<open>build_environment.py\<close>: containment detection\<close>

text \<open>
  The file system as \<^verbatim>\<open>is_in_container\<close> sees it: a path is absent, or it
  exists and \<^verbatim>\<open>read_text("utf-8")\<close> gives its text, or it exists and reading
  it raises (a directory, no permission, bytes that do not decode).
\<close>

datatype node = Readable str | Unreadable py_error

type_synonym filesystem = "string \<rightharpoonup> node"

definition path_exists :: "filesystem \<Rightarrow> string \<Rightarrow> bool" where
  "path_exists fs p = (fs p \<noteq> None)"

definition read_text :: "filesystem \<Rightarrow> string \<Rightarrow> py_error + str" where
  "read_text fs p =
     (case fs p of
        None \<Rightarrow> Inl (OSError ''No such file or directory'')
      | Some (Readable t) \<Rightarrow> Inr t
      | Some (Unreadable e) \<Rightarrow> Inl e)"

text \<open>
  \<^verbatim>\<open>
  cgroup = Path("/proc/self/cgroup")
  return (Path("/.dockerenv").exists()
          or Path("/run/.containerenv").exists()
          or (cgroup.exists() and "docker" in cgroup.read_text("utf-8")))
  \<close>
  \<^verbatim>\<open>or\<close> and \<^verbatim>\<open>and\<close> short-circuit, so the file is read only when the two
  markers are missing and the file exists.
\<close>

definition is_in_container :: "filesystem \<Rightarrow> py_error + bool" where
  "is_in_container fs =
     (let cgroup = ''/proc/self/cgroup'' in
      if path_exists fs ''/.dockerenv'' then Inr True
      else if path_exists fs ''/run/.containerenv'' then Inr True
      else if path_exists fs cgroup then
        (case read_text fs cgroup of
           Inl e \<Rightarrow> Inl e
         | Inr t \<Rightarrow> Inr (contains ''docker'' t))
      else Inr False)"

section \<open>\<^verbatim>\<open>task_registrar.py\<close>\<close>

text \<open>
  A Python function as the registrar sees it: the signature that
  \<^verbatim>\<open>inspect.getargspec\<close> reports (the names of the fixed positional arguments,
  the name of \<^verbatim>\<open>*varargs\<close> and of \<^verbatim>\<open>**keywords\<close> or \<^verbatim>\<open>None\<close>, the tuple of
  default values or \<^verbatim>\<open>None\<close>) and what a call with its parameters bound does.
  \<open>'v\<close> is the type of Python values.
\<close>

record 'v pyfunc =
  fn_args :: "string list"
  fn_varargs :: "string option"
  fn_keywords :: "string option"
  fn_defaults :: "'v list option"
  fn_body :: "'v list \<Rightarrow> py_error + 'v"

definition getargspec ::
  "'v pyfunc \<Rightarrow> string list \<times> string option \<times> string option \<times> 'v list option" where
  "getargspec f = (fn_args f, fn_varargs f, fn_keywords f, fn_defaults f)"

text \<open>Truth value of \<^verbatim>\<open>None\<close>, of a string and of a tuple, as \<^verbatim>\<open>if x or y\<close> takes it.\<close>

definition truthy :: "'a list option \<Rightarrow> bool" where
  "truthy x = (case x of None \<Rightarrow> False | Some xs \<Rightarrow> xs \<noteq> [])"

text \<open>
  A call \<^verbatim>\<open>f(*argv)\<close> with positional arguments only: too many arguments without
  \<^verbatim>\<open>*varargs\<close>, or too few for the parameters that have no default, raise
  \<^verbatim>\<open>TypeError\<close>; otherwise the body runs on the arguments, the missing ones
  taken from the defaults.
\<close>

definition call :: "'v pyfunc \<Rightarrow> 'v list \<Rightarrow> py_error + 'v" where
  "call f argv =
     (let n = length argv; k = length (fn_args f);
          ds = (case fn_defaults f of None \<Rightarrow> [] | Some d \<Rightarrow> d) in
      if k < n then (if fn_varargs f = None then Inl TypeError else fn_body f argv)
      else if n + length ds < k then Inl TypeError
      else fn_body f (argv @ drop (n + length ds - k) ds))"

text \<open>
  The action given to the registrar: a subclass of \<^verbatim>\<open>Task\<close> (\<open>'tc\<close>, external) or
  a plain function.
\<close>

datatype ('tc, 'v) action = TaskClass 'tc | Function "'v pyfunc"

text \<open>
  The task type the registrar ends with: the class it was given, or the class
  \<^verbatim>\<open>FuncTask\<close> defined in the constructor, which closes over \<^verbatim>\<open>action\<close>.
\<close>

datatype ('tc, 'v) task_type = Given 'tc | FuncTask "'v pyfunc"

record ('g, 'tc, 'v) task_registrar =
  serialize :: bool
  name :: string
  dependencies :: "'g list"
  task :: "('tc, 'v) task_type"

text \<open>\<^verbatim>\<open>[Goal.by_name(d) for d in dependencies]\<close>; the registry is external and may raise.\<close>

fun by_name_all :: "(string \<Rightarrow> py_error + 'g) \<Rightarrow> string list \<Rightarrow> py_error + 'g list" where
  "by_name_all by_name [] = Inr []"
| "by_name_all by_name (d # ds) =
     (case by_name d of
        Inl e \<Rightarrow> Inl e
      | Inr g \<Rightarrow> (case by_name_all by_name ds of Inl e \<Rightarrow> Inl e | Inr gs \<Rightarrow> Inr (g # gs)))"

text \<open>
  \<^verbatim>\<open>
  self.serialize = serialize
  self.name = name
  self.dependencies = [Goal.by_name(d) for d in dependencies] if dependencies else []
  if isinstance(type(action), type) and issubclass(action, Task):
    self._task = action
  else:
    args, varargs, keywords, defaults = inspect.getargspec(action)
    if varargs or keywords or defaults:
      raise GoalError('Invalid action supplied, cannot accept varargs, keywords or defaults')
    if len(args) > 1:
      raise GoalError('Invalid action supplied, must accept either no args or else a single '
                      'Context object')
    class FuncTask(Task): ...
    self._task = FuncTask
  \<close>
\<close>

definition resolve_dependencies ::
  "(string \<Rightarrow> py_error + 'g) \<Rightarrow> string list option \<Rightarrow> py_error + 'g list" where
  "resolve_dependencies by_name deps =
     (case deps of
        None \<Rightarrow> Inr []
      | Some ds \<Rightarrow> if ds = [] then Inr [] else by_name_all by_name ds)"

definition TaskRegistrar_init ::
  "(string \<Rightarrow> py_error + 'g) \<Rightarrow> string \<Rightarrow> ('tc, 'v) action \<Rightarrow> string list option \<Rightarrow> bool
     \<Rightarrow> py_error + ('g, 'tc, 'v) task_registrar" where
  "TaskRegistrar_init by_name nm act deps ser =
     (case resolve_dependencies by_name deps of
        Inl e \<Rightarrow> Inl e
      | Inr gs \<Rightarrow>
         (case act of
            TaskClass t \<Rightarrow>
              Inr \<lparr>serialize = ser, name = nm, dependencies = gs, task = Given t\<rparr>
          | Function f \<Rightarrow>
             (case getargspec f of (a, v, k, d) \<Rightarrow>
                if truthy v \<or> truthy k \<or> truthy d then
                  Inl (GoalError
                    ''Invalid action supplied, cannot accept varargs, keywords or defaults'')
                else if 1 < length a then
                  Inl (GoalError
                    ''Invalid action supplied, must accept either no args or else a single Context object'')
                else
                  Inr \<lparr>serialize = ser, name = nm, dependencies = gs, task = FuncTask f\<rparr>)))"

text \<open>
  An instance of \<^verbatim>\<open>FuncTask\<close>: the context the base class stored and the action
  chosen by the constructor, the function itself or
  \<^verbatim>\<open>functools.partial(action, self.context)\<close>.
\<close>

datatype 'v bound_action = Plain "'v pyfunc" | Partial "'v pyfunc" 'v

record 'v func_task =
  self_context :: 'v
  self_action :: "'v bound_action"

text \<open>
  \<^verbatim>\<open>
  def __init__(self, *args, **kwargs):
    super(FuncTask, self).__init__(*args, **kwargs)
    if not args:
      self.action = action
    elif len(args) == 1:
      self.action = functools.partial(action, self.context)
    else:
      raise AssertionError('Unexpected fallthrough')
  \<close>
  Inside \<^verbatim>\<open>__init__\<close> the name \<^verbatim>\<open>args\<close> is the parameter \<^verbatim>\<open>*args\<close>, the
  positional arguments of the constructor call: it hides the \<^verbatim>\<open>args\<close> that
  \<^verbatim>\<open>getargspec\<close> returned in the enclosing scope. \<open>Task_init\<close> is the base class's
  constructor (external): given the constructor's arguments it raises or
  stores the context.
\<close>

definition FuncTask_init ::
  "('v list \<Rightarrow> (string \<times> 'v) list \<Rightarrow> py_error + 'v) \<Rightarrow> 'v pyfunc \<Rightarrow> 'v list \<Rightarrow> (string \<times> 'v) list
     \<Rightarrow> py_error + 'v func_task" where
  "FuncTask_init Task_init act cargs kwargs =
     (case Task_init cargs kwargs of
        Inl e \<Rightarrow> Inl e
      | Inr ctx \<Rightarrow>
          if cargs = [] then Inr \<lparr>self_context = ctx, self_action = Plain act\<rparr>
          else if length cargs = 1 then Inr \<lparr>self_context = ctx, self_action = Partial act ctx\<rparr>
          else Inl (AssertionError ''Unexpected fallthrough''))"

text \<open>Calling the stored action with no arguments: \<^verbatim>\<open>self.action()\<close>.\<close>

fun call_bound :: "'v bound_action \<Rightarrow> py_error + 'v" where
  "call_bound (Plain f) = call f []"
| "call_bound (Partial f c) = call f [c]"

text \<open>\<^verbatim>\<open>def execute(self): self.action()\<close> drops the value and returns \<^verbatim>\<open>None\<close>.\<close>

definition execute :: "'v func_task \<Rightarrow> py_error + unit" where
  "execute t = (case call_bound (self_action t) of Inl e \<Rightarrow> Inl e | Inr _ \<Rightarrow> Inr ())"

text \<open>
  What \<^verbatim>\<open>getargspec\<close> can return for a Python function: argument names are
  identifiers, so not empty, and the defaults are \<^verbatim>\<open>None\<close> when no argument has
  one, never the empty tuple.
\<close>

definition argspec_ok :: "'v pyfunc \<Rightarrow> bool" where
  "argspec_ok f \<longleftrightarrow>
     fn_varargs f \<noteq> Some [] \<and> fn_keywords f \<noteq> Some [] \<and> fn_defaults f \<noteq> Some []"

section \<open>\<^verbatim>\<open>build_environment.py\<close>: strings and paths\<close>

subsection \<open>String methods\<close>

text \<open>
  Characters are Isabelle's 8-bit characters, read as the code points U+0000 to
  U+00FF. \<^verbatim>\<open>str.isspace\<close> holds there for 0x09-0x0D, 0x1C-0x1F, 0x20, 0x85 and 0xA0;
  \<^verbatim>\<open>str.splitlines\<close> breaks at \<^verbatim>\<open>\n\<close>, \<^verbatim>\<open>\r\<close>, \<^verbatim>\<open>\r\n\<close>, 0x0B, 0x0C, 0x1C, 0x1D,
  0x1E and 0x85.
\<close>

definition isspace :: "char \<Rightarrow> bool" where
  "isspace c \<longleftrightarrow>
     c \<in> set [CHR 0x09, CHR 0x0A, CHR 0x0B, CHR 0x0C, CHR 0x0D, CHR 0x1C, CHR 0x1D, CHR 0x1E,
              CHR 0x1F, CHR 0x20, CHR 0x85, CHR 0xA0]"

definition is_linebreak :: "char \<Rightarrow> bool" where
  "is_linebreak c \<longleftrightarrow>
     c \<in> set [CHR 0x0A, CHR 0x0B, CHR 0x0C, CHR 0x0D, CHR 0x1C, CHR 0x1D, CHR 0x1E, CHR 0x85]"

text \<open>\<^verbatim>\<open>s.strip()\<close>\<close>

definition strip :: "str \<Rightarrow> str" where
  "strip s = rev (dropWhile isspace (rev (dropWhile isspace s)))"

text \<open>\<^verbatim>\<open>s.split()\<close>: the maximal runs of characters that are not whitespace.\<close>

fun split_from :: "str \<Rightarrow> str \<Rightarrow> str list" where
  "split_from cur [] = (if cur = [] then [] else [cur])"
| "split_from cur (c # cs) =
     (if isspace c then (if cur = [] then split_from [] cs else cur # split_from [] cs)
      else split_from (cur @ [c]) cs)"

definition str_split :: "str \<Rightarrow> str list" where
  "str_split s = split_from [] s"

text \<open>
  \<^verbatim>\<open>s.splitlines()\<close>: a line ends at each line break (an empty line is kept), and
  what follows the last break is a line only when it is not empty.
\<close>

fun splitlines_from :: "str \<Rightarrow> str \<Rightarrow> str list" where
  "splitlines_from cur [] = (if cur = [] then [] else [cur])"
| "splitlines_from cur (c # cs) =
     (if c = CHR 0x0D then
        (case cs of
           [] \<Rightarrow> [cur]
         | d # ds \<Rightarrow>
             if d = CHR 0x0A then cur # splitlines_from [] ds else cur # splitlines_from [] cs)
      else if is_linebreak c then cur # splitlines_from [] cs
      else splitlines_from (cur @ [c]) cs)"

definition splitlines :: "str \<Rightarrow> str list" where
  "splitlines s = splitlines_from [] s"

text \<open>\<^verbatim>\<open>s.split(sep)\<close> for a one-character separator: empty fields are kept.\<close>

fun split_on :: "char \<Rightarrow> str \<Rightarrow> str \<Rightarrow> str list" where
  "split_on sep cur [] = [cur]"
| "split_on sep cur (c # cs) =
     (if c = sep then cur # split_on sep [] cs else split_on sep (cur @ [c]) cs)"

text \<open>\<^verbatim>\<open>sep.join(xs)\<close>\<close>

fun join :: "str \<Rightarrow> str list \<Rightarrow> str" where
  "join sep [] = []"
| "join sep [x] = x"
| "join sep (x # y # ys) = x @ sep @ join sep (y # ys)"

text \<open>\<^verbatim>\<open>str(n)\<close> for an integer, as the f-string formats the exit code.\<close>

fun digits :: "nat \<Rightarrow> str" where
  "digits n = (if n < 10 then [''0123456789'' ! n] else digits (n div 10) @ [''0123456789'' ! (n mod 10)])"

declare digits.simps [simp del]

definition str_int :: "int \<Rightarrow> str" where
  "str_int i = (if i < 0 then ''-'' @ digits (nat (- i)) else digits (nat i))"

subsection \<open>\<^verbatim>\<open>pathlib.PurePath\<close> (POSIX flavour)\<close>

text \<open>
  A pure path is its root (empty, \<^verbatim>\<open>/\<close>, or \<^verbatim>\<open>//\<close> for exactly two leading slashes)
  and its names. There is no drive on POSIX. pathlib's own \<^verbatim>\<open>_parts\<close> list is
  the root, when there is one, followed by the names.
\<close>

record purepath =
  proot :: str
  pnames :: "str list"

text \<open>
  \<^verbatim>\<open>
  def splitroot(self, part, sep=sep):
      if part and part[0] == sep:
          stripped_part = part.lstrip(sep)
          if len(part) - len(stripped_part) == 2:
              return '', sep * 2, stripped_part
          else:
              return '', sep, stripped_part
      else:
          return '', '', part
  \<close>
\<close>

definition splitroot :: "str \<Rightarrow> str \<times> str" where
  "splitroot part =
     (case part of
        [] \<Rightarrow> ([], part)
      | c # _ \<Rightarrow>
          if c = CHR ''/'' then
            (let stripped_part = dropWhile (\<lambda>x. x = CHR ''/'') part in
             if length part - length stripped_part = 2 then (''//'', stripped_part)
             else (''/'', stripped_part))
          else ([], part))"

text \<open>\<^verbatim>\<open>PurePath(s)\<close>: empty names and \<^verbatim>\<open>.\<close> are dropped, \<^verbatim>\<open>..\<close> is kept.\<close>

definition PurePath :: "str \<Rightarrow> purepath" where
  "PurePath s =
     (case splitroot s of (r, rel) \<Rightarrow>
        \<lparr>proot = r, pnames = filter (\<lambda>x. x \<noteq> [] \<and> x \<noteq> ''.'') (split_on CHR ''/'' [] rel)\<rparr>)"

text \<open>\<^verbatim>\<open>str(p)\<close>: root and names joined by \<^verbatim>\<open>/\<close>, or \<^verbatim>\<open>.\<close> for the empty path.\<close>

definition path_str :: "purepath \<Rightarrow> str" where
  "path_str p = (let s = proot p @ join ''/'' (pnames p) in if s = [] then ''.'' else s)"

text \<open>\<^verbatim>\<open>p / s\<close> for a string \<^verbatim>\<open>s\<close>: a rooted right operand replaces the left one.\<close>

definition joinpath :: "purepath \<Rightarrow> str \<Rightarrow> purepath" where
  "joinpath p s =
     (let q = PurePath s in
      if proot q \<noteq> [] then q else \<lparr>proot = proot p, pnames = pnames p @ pnames q\<rparr>)"

text \<open>
  \<^verbatim>\<open>p.relative_to(other)\<close>, Python 3.7 to 3.11:
  \<^verbatim>\<open>
  abs_parts = [drv, root] + parts[1:] if root else parts
  to_abs_parts = [to_drv, to_root] + to_parts[1:] if to_root else to_parts
  n = len(to_abs_parts)
  if (root or drv) if n == 0 else cf(abs_parts[:n]) != cf(to_abs_parts):
      raise ValueError(...)
  return self._from_parsed_parts('', root if n == 1 else '', abs_parts[n:])
  \<close>
\<close>

definition abs_parts :: "purepath \<Rightarrow> str list" where
  "abs_parts p = (if proot p \<noteq> [] then [[], proot p] @ pnames p else pnames p)"

definition relative_to :: "purepath \<Rightarrow> purepath \<Rightarrow> py_error + purepath" where
  "relative_to p other =
     (let n = length (abs_parts other) in
      if (if n = 0 then proot p \<noteq> [] else take n (abs_parts p) \<noteq> abs_parts other)
      then Inl ValueError
      else Inr \<lparr>proot = (if n = 1 then proot p else []), pnames = drop n (abs_parts p)\<rparr>)"

text \<open>An argument typed \<^verbatim>\<open>str | PurePath\<close>, its truth value, \<^verbatim>\<open>str(x)\<close> and \<^verbatim>\<open>PurePath(x)\<close>.\<close>

datatype pathlike = PStr str | PPath purepath

fun pathlike_truthy :: "pathlike \<Rightarrow> bool" where
  "pathlike_truthy (PStr s) = (s \<noteq> [])"
| "pathlike_truthy (PPath p) = True"

fun pathlike_str :: "pathlike \<Rightarrow> str" where
  "pathlike_str (PStr s) = s"
| "pathlike_str (PPath p) = path_str p"

fun pathlike_path :: "pathlike \<Rightarrow> purepath" where
  "pathlike_path (PStr s) = PurePath s"
| "pathlike_path (PPath p) = p"

section \<open>\<^verbatim>\<open>build_environment.py\<close>: the Git facade\<close>

subsection \<open>The operating system\<close>

text \<open>
  What the module asks of the interpreter and the operating system, as
  parameters; each may raise.
  \<^item> \<open>popen d cmd\<close>: \<^verbatim>\<open>subprocess.Popen(cmd, stdout=PIPE, stderr=PIPE)\<close> followed by
    \<^verbatim>\<open>communicate()\<close>, run in directory \<open>d\<close> (\<open>None\<close>: the working directory of
    the process): the return code, standard output and standard error.
  \<^item> \<open>subprocess_call cmd\<close>: \<^verbatim>\<open>subprocess.call(cmd)\<close>, the return code.
  \<^item> \<open>decode\<close>: \<^verbatim>\<open>bytes.decode()\<close>.
  \<^item> \<open>getcwd\<close>: \<^verbatim>\<open>os.getcwd()\<close>; \<open>resolve\<close>: \<^verbatim>\<open>Path.resolve()\<close>;
    \<open>chdir\<close>: \<^verbatim>\<open>os.chdir\<close>.
\<close>

record system =
  popen :: "str option \<Rightarrow> str list \<Rightarrow> py_error + int \<times> bytes \<times> bytes"
  subprocess_call :: "str list \<Rightarrow> py_error + int"
  decode :: "bytes \<Rightarrow> py_error + str"
  getcwd :: "py_error + str"
  resolve :: "purepath \<Rightarrow> py_error + purepath"
  chdir :: "str \<Rightarrow> py_error + unit"

subsection \<open>The handle\<close>

record git =
  worktree :: purepath
  gitdir :: purepath
  gitcmd :: str

text \<open>
  \<^verbatim>\<open>
  def __init__(self, worktree=None, *, gitdir=None, binary="git"):
      self.worktree = Path(worktree or os.getcwd()).resolve()
      self._gitdir = Path(gitdir).resolve() if gitdir else (self.worktree / ".git")
      self._gitcmd = binary
  \<close>
  An argument left out is \<open>None\<close>; for \<^verbatim>\<open>binary\<close> that is the default \<^verbatim>\<open>"git"\<close>.
\<close>

definition Git_init ::
  "system \<Rightarrow> pathlike option \<Rightarrow> pathlike option \<Rightarrow> str option \<Rightarrow> py_error + git" where
  "Git_init sys wt gd binary =
     (case (case wt of
              Some w \<Rightarrow>
                if pathlike_truthy w then Inr (pathlike_path w)
                else (case getcwd sys of Inl e \<Rightarrow> Inl e | Inr d \<Rightarrow> Inr (PurePath d))
            | None \<Rightarrow> (case getcwd sys of Inl e \<Rightarrow> Inl e | Inr d \<Rightarrow> Inr (PurePath d))) of
        Inl e \<Rightarrow> Inl e
      | Inr p \<Rightarrow>
         (case resolve sys p of
            Inl e \<Rightarrow> Inl e
          | Inr tree \<Rightarrow>
             (case (case gd of
                      Some g \<Rightarrow>
                        if pathlike_truthy g then resolve sys (pathlike_path g)
                        else Inr (joinpath tree ''.git'')
                    | None \<Rightarrow> Inr (joinpath tree ''.git'')) of
                Inl e \<Rightarrow> Inl e
              | Inr dir \<Rightarrow>
                  Inr \<lparr>worktree = tree, gitdir = dir,
                       gitcmd = (case binary of None \<Rightarrow> ''git'' | Some b \<Rightarrow> b)\<rparr>)))"

text \<open>
  \<^verbatim>\<open>
  def _invoke(cmd):
      try:
          process = subprocess.Popen(cmd, stdout=subprocess.PIPE, stderr=subprocess.PIPE)
      except OSError as e:
          cmd_str = " ".join(cmd)
          raise GitException(f"Failed to execute command {cmd_str}: {e!r}")
      out, err = process.communicate()
      return process, out, err
  \<close>
  \<open>OSError r\<close> carries \<^verbatim>\<open>repr(e)\<close>.
\<close>

definition invoke :: "system \<Rightarrow> str option \<Rightarrow> str list \<Rightarrow> py_error + int \<times> bytes \<times> bytes" where
  "invoke sys d cmd =
     (case popen sys d cmd of
        Inl (OSError r) \<Rightarrow>
          Inl (GitException (''Failed to execute command '' @ join '' '' cmd @ '': '' @ r))
      | Inl e \<Rightarrow> Inl e
      | Inr x \<Rightarrow> Inr x)"

text \<open>\<^verbatim>\<open>def _cleanse(cls, output): return output.decode().strip()\<close>\<close>

definition cleanse :: "system \<Rightarrow> bytes \<Rightarrow> py_error + str" where
  "cleanse sys output = (case decode sys output of Inl e \<Rightarrow> Inl e | Inr t \<Rightarrow> Inr (strip t))"

text \<open>
  \<^verbatim>\<open>
  def _check_result(cls, cmd, result, failure_msg=None):
      if result != 0:
          cmd_str = " ".join(cmd)
          raise GitException(failure_msg or f"{cmd_str} failed with exit code {result}")
  \<close>
\<close>

definition exit_code_message :: "str list \<Rightarrow> int \<Rightarrow> str" where
  "exit_code_message cmd result = join '' '' cmd @ '' failed with exit code '' @ str_int result"

definition check_result :: "str list \<Rightarrow> int \<Rightarrow> str option \<Rightarrow> py_error + unit" where
  "check_result cmd result failure_msg =
     (if result \<noteq> 0 then
        Inl (GitException
          (case failure_msg of
             None \<Rightarrow> exit_code_message cmd result
           | Some m \<Rightarrow> if m \<noteq> [] then m else exit_code_message cmd result))
      else Inr ())"

text \<open>
  \<^verbatim>\<open>
  def mount(cls, subdir=None, *, binary="git"):
      cmd = [str(binary), "rev-parse", "--show-toplevel"]
      if subdir:
          with pushd(str(subdir)):
              process, out, err = cls._invoke(cmd)
      else:
          process, out, err = cls._invoke(cmd)
      cls._check_result(cmd, process.returncode, err.decode())
      return cls(worktree=PurePath(cls._cleanse(out)))
  \<close>
  \<open>mount_cmd\<close> is the command line, \<open>mount_invoke\<close> the \<^verbatim>\<open>if subdir\<close> statement.
\<close>

definition mount_cmd :: "pathlike option \<Rightarrow> str list" where
  "mount_cmd binary =
     [(case binary of None \<Rightarrow> ''git'' | Some b \<Rightarrow> pathlike_str b), ''rev-parse'', ''--show-toplevel'']"

text \<open>
  Modelled from the spec: \<^verbatim>\<open>pushd\<close> (\<^verbatim>\<open>pants.util.contextutil\<close>, not part of these
  sources) changes the working directory to \<^verbatim>\<open>subdir\<close> for the duration of the
  call and restores it afterwards, also on failure. Changing directory may
  raise, and then the command is not run.
\<close>

definition mount_invoke ::
  "system \<Rightarrow> pathlike option \<Rightarrow> str list \<Rightarrow> py_error + int \<times> bytes \<times> bytes" where
  "mount_invoke sys subdir cmd =
     (case subdir of
        Some d \<Rightarrow>
          if pathlike_truthy d then
            (case chdir sys (pathlike_str d) of
               Inl e \<Rightarrow> Inl e
             | Inr _ \<Rightarrow> invoke sys (Some (pathlike_str d)) cmd)
          else invoke sys None cmd
      | None \<Rightarrow> invoke sys None cmd)"

definition mount :: "system \<Rightarrow> pathlike option \<Rightarrow> pathlike option \<Rightarrow> py_error + git" where
  "mount sys subdir binary =
     (let cmd = mount_cmd binary in
      case mount_invoke sys subdir cmd of
        Inl e \<Rightarrow> Inl e
      | Inr (returncode, out, err) \<Rightarrow>
         (case decode sys err of
            Inl e \<Rightarrow> Inl e
          | Inr msg \<Rightarrow>
             (case check_result cmd returncode (Some msg) of
                Inl e \<Rightarrow> Inl e
              | Inr _ \<Rightarrow>
                 (case cleanse sys out of
                    Inl e \<Rightarrow> Inl e
                  | Inr t \<Rightarrow> Git_init sys (Some (PPath (PurePath t))) None None))))"

text \<open>
  \<^verbatim>\<open>
  def _create_git_cmdline(self, args):
      return [self._gitcmd, f"--git-dir={self._gitdir}", f"--work-tree={self.worktree}", *args]
  \<close>
\<close>

definition create_git_cmdline :: "git \<Rightarrow> str list \<Rightarrow> str list" where
  "create_git_cmdline g args =
     [gitcmd g, ''--git-dir='' @ path_str (gitdir g), ''--work-tree='' @ path_str (worktree g)] @ args"

text \<open>
  \<^verbatim>\<open>
  def _check_call(self, args):
      cmd = self._create_git_cmdline(args)
      self._log_call(cmd)
      result = subprocess.call(cmd)
      self._check_result(cmd, result)
  \<close>
  Logging has no effect on the result and is left out.
\<close>

definition check_call :: "system \<Rightarrow> git \<Rightarrow> str list \<Rightarrow> py_error + unit" where
  "check_call sys g args =
     (let cmd = create_git_cmdline g args in
      case subprocess_call sys cmd of
        Inl e \<Rightarrow> Inl e
      | Inr result \<Rightarrow> check_result cmd result None)"

text \<open>
  \<^verbatim>\<open>
  def _check_output(self, args):
      cmd = self._create_git_cmdline(args)
      self._log_call(cmd)
      process, out, err = self._invoke(cmd)
      self._check_result(cmd, process.returncode, err.decode())
      return self._cleanse(out)
  \<close>
  \<^verbatim>\<open>err.decode()\<close> is an argument of the call, so it is evaluated, and may raise,
  whatever the return code.
\<close>

definition check_output :: "system \<Rightarrow> git \<Rightarrow> str list \<Rightarrow> py_error + str" where
  "check_output sys g args =
     (let cmd = create_git_cmdline g args in
      case invoke sys None cmd of
        Inl e \<Rightarrow> Inl e
      | Inr (returncode, out, err) \<Rightarrow>
         (case decode sys err of
            Inl e \<Rightarrow> Inl e
          | Inr msg \<Rightarrow>
             (case check_result cmd returncode (Some msg) of
                Inl e \<Rightarrow> Inl e
              | Inr _ \<Rightarrow> cleanse sys out)))"

text \<open>
  \<^verbatim>\<open>
  def branch_name(self):
      branch = self._check_output(["rev-parse", "--abbrev-ref", "HEAD"])
      return None if branch == "HEAD" else branch
  \<close>
\<close>

definition branch_name :: "system \<Rightarrow> git \<Rightarrow> py_error + str option" where
  "branch_name sys g =
     (case check_output sys g [''rev-parse'', ''--abbrev-ref'', ''HEAD''] of
        Inl e \<Rightarrow> Inl e
      | Inr branch \<Rightarrow> Inr (if branch = ''HEAD'' then None else Some branch))"

text \<open>
  \<^verbatim>\<open>
  def _fix_git_relative_path(self, worktree_path, relative_to):
      return str((self.worktree / worktree_path).relative_to(relative_to))
  \<close>
\<close>

definition fix_git_relative_path :: "git \<Rightarrow> str \<Rightarrow> purepath \<Rightarrow> py_error + str" where
  "fix_git_relative_path g worktree_path rel =
     (case relative_to (joinpath (worktree g) worktree_path) rel of
        Inl e \<Rightarrow> Inl e
      | Inr p \<Rightarrow> Inr (path_str p))"

text \<open>
  The set comprehension \<^verbatim>\<open>{self._fix_git_relative_path(f, relative_to) for f in files}\<close>.
  It raises as soon as one path raises; the only exception is \<^verbatim>\<open>ValueError\<close>, so
  the order in which the set is walked does not show in the result.
\<close>

fun fix_all :: "git \<Rightarrow> purepath \<Rightarrow> str list \<Rightarrow> py_error + str list" where
  "fix_all g rel [] = Inr []"
| "fix_all g rel (f # fs) =
     (case fix_git_relative_path g f rel of
        Inl e \<Rightarrow> Inl e
      | Inr x \<Rightarrow> (case fix_all g rel fs of Inl e \<Rightarrow> Inl e | Inr xs \<Rightarrow> Inr (x # xs)))"

text \<open>
  \<^verbatim>\<open>
  def changed_files(self, from_commit=None, include_untracked=False, relative_to=None):
      relative_to = PurePath(relative_to) if relative_to is not None else self.worktree
      rel_suffix = ["--", str(relative_to)]
      uncommitted_changes = self._check_output(["diff", "--name-only", "HEAD"] + rel_suffix)
      files = set(uncommitted_changes.splitlines())
      if from_commit:
          committed_cmd = ["diff", "--name-only", from_commit + "...HEAD"] + rel_suffix
          committed_changes = self._check_output(committed_cmd)
          files.update(committed_changes.split())
      if include_untracked:
          untracked_cmd = ["ls-files", "--other", "--exclude-standard", "--full-name"] + rel_suffix
          untracked = self._check_output(untracked_cmd)
          files.update(untracked.split())
      return {self._fix_git_relative_path(f, relative_to) for f in files}
  \<close>
  The set \<^verbatim>\<open>files\<close> is kept as the list of its elements:
  \<open>changed_files_list\<close> is its value before the \<^verbatim>\<open>return\<close>.
\<close>

definition relative_to_arg :: "git \<Rightarrow> pathlike option \<Rightarrow> purepath" where
  "relative_to_arg g rel_arg = (case rel_arg of None \<Rightarrow> worktree g | Some r \<Rightarrow> pathlike_path r)"

definition changed_files_list ::
  "system \<Rightarrow> git \<Rightarrow> str option \<Rightarrow> bool \<Rightarrow> pathlike option \<Rightarrow> py_error + str list" where
  "changed_files_list sys g from_commit include_untracked rel_arg =
     (let rel_suffix = [''--'', path_str (relative_to_arg g rel_arg)] in
      case check_output sys g ([''diff'', ''--name-only'', ''HEAD''] @ rel_suffix) of
        Inl e \<Rightarrow> Inl e
      | Inr uncommitted_changes \<Rightarrow>
         (case (case from_commit of
                  None \<Rightarrow> Inr (splitlines uncommitted_changes)
                | Some c \<Rightarrow>
                    if c \<noteq> [] then
                      (case check_output sys g
                              ([''diff'', ''--name-only'', c @ ''...HEAD''] @ rel_suffix) of
                         Inl e \<Rightarrow> Inl e
                       | Inr committed_changes \<Rightarrow>
                           Inr (splitlines uncommitted_changes @ str_split committed_changes))
                    else Inr (splitlines uncommitted_changes)) of
            Inl e \<Rightarrow> Inl e
          | Inr files \<Rightarrow>
              if include_untracked then
                (case check_output sys g
                        ([''ls-files'', ''--other'', ''--exclude-standard'', ''--full-name'']
                         @ rel_suffix) of
                   Inl e \<Rightarrow> Inl e
                 | Inr untracked \<Rightarrow> Inr (files @ str_split untracked))
              else Inr files))"

definition changed_files ::
  "system \<Rightarrow> git \<Rightarrow> str option \<Rightarrow> bool \<Rightarrow> pathlike option \<Rightarrow> py_error + str set" where
  "changed_files sys g from_commit include_untracked rel_arg =
     (case changed_files_list sys g from_commit include_untracked rel_arg of
        Inl e \<Rightarrow> Inl e
      | Inr files \<Rightarrow>
         (case fix_all g (relative_to_arg g rel_arg) files of
            Inl e \<Rightarrow> Inl e
          | Inr xs \<Rightarrow> Inr (set xs)))"

text \<open>
  \<^verbatim>\<open>
  def changes_in(self, diffspec, relative_to=None):
      relative_to = PurePath(relative_to) if relative_to is not None else self.worktree
      cmd = ["diff-tree", "--no-commit-id", "--name-only", "-r", diffspec]
      files = self._check_output(cmd).split()
      return {self._fix_git_relative_path(f.strip(), relative_to) for f in files}
  \<close>
\<close>

definition changes_in :: "system \<Rightarrow> git \<Rightarrow> str \<Rightarrow> pathlike option \<Rightarrow> py_error + str set" where
  "changes_in sys g diffspec rel_arg =
     (let rel = relative_to_arg g rel_arg in
      case check_output sys g [''diff-tree'', ''--no-commit-id'', ''--name-only'', ''-r'', diffspec] of
        Inl e \<Rightarrow> Inl e
      | Inr out \<Rightarrow>
         (case fix_all g rel (map strip (str_split out)) of
            Inl e \<Rightarrow> Inl e
          | Inr xs \<Rightarrow> Inr (set xs)))"

text \<open>
  \<^verbatim>\<open>
  def commit(self, message):
      self._check_call(["commit", "--all", "--message", message])
  def add(self, *paths):
      self._check_call(["add", *(str(path) for path in paths)])
  \<close>
\<close>

definition commit :: "system \<Rightarrow> git \<Rightarrow> str \<Rightarrow> py_error + unit" where
  "commit sys g message = check_call sys g [''commit'', ''--all'', ''--message'', message]"

definition add :: "system \<Rightarrow> git \<Rightarrow> purepath list \<Rightarrow> py_error + unit" where
  "add sys g paths = check_call sys g (''add'' # map path_str paths)"

subsection \<open>The process-wide handle\<close>

text \<open>
  The module-level slot \<^verbatim>\<open>_Git: _GitInitialized | Git | None\<close>, and next to it
  the number of calls of \<^verbatim>\<open>Git.mount()\<close> made so far, which is the effect
  the accessor is meant to have at most once.
\<close>

datatype slot = NO | Value "git option"

record process =
  Git_slot :: slot
  mounts :: nat

text \<open>
  \<^verbatim>\<open>
  def get_git():
      global _Git
      if _Git is _GitInitialized.NO:
          try:
              git = Git.mount()
              logger.debug(f"Detected git repository at {git.worktree} on branch {git.branch_name}")
              _Git = git
          except GitException as e:
              logger.info(f"No git repository at {os.getcwd()}: {e!r}")
              _Git = None
      return _Git
  \<close>
  The f-strings are evaluated before the logger is called: the first runs
  \<^verbatim>\<open>git.branch_name\<close>, a subprocess, inside the \<^verbatim>\<open>try\<close>; the second calls
  \<^verbatim>\<open>os.getcwd()\<close> inside the handler, before the assignment. Only
  \<^verbatim>\<open>GitException\<close> is caught. The result is what the call returns or raises,
  with the state it leaves. The decorator \<^verbatim>\<open>@deprecated\<close> (external) only warns
  and is left out.
\<close>

definition get_git_handler :: "system \<Rightarrow> process \<Rightarrow> (py_error + git option) \<times> process" where
  "get_git_handler sys st =
     (case getcwd sys of
        Inl e \<Rightarrow> (Inl e, st)
      | Inr _ \<Rightarrow> (Inr None, st\<lparr>Git_slot := Value None\<rparr>))"

definition get_git :: "system \<Rightarrow> process \<Rightarrow> (py_error + git option) \<times> process" where
  "get_git sys st =
     (case Git_slot st of
        Value v \<Rightarrow> (Inr v, st)
      | NO \<Rightarrow>
         (let st1 = st\<lparr>mounts := Suc (mounts st)\<rparr> in
          case mount sys None None of
            Inl (GitException m) \<Rightarrow> get_git_handler sys st1
          | Inl e \<Rightarrow> (Inl e, st1)
          | Inr g \<Rightarrow>
             (case branch_name sys g of
                Inl (GitException m) \<Rightarrow> get_git_handler sys st1
              | Inl e \<Rightarrow> (Inl e, st1)
              | Inr _ \<Rightarrow> (Inr (Some g), st1\<lparr>Git_slot := Value (Some g)\<rparr>))))"

text \<open>A sequence of calls: the results, oldest first, and the final state.\<close>

fun get_git_times :: "system \<Rightarrow> nat \<Rightarrow> process \<Rightarrow> (py_error + git option) list \<times> process" where
  "get_git_times sys 0 st = ([], st)"
| "get_git_times sys (Suc n) st =
     (case get_git sys st of (r, st1) \<Rightarrow>
        (case get_git_times sys n st1 of (rs, st2) \<Rightarrow> (r # rs, st2)))"

section \<open>Example systems\<close>

text \<open>
  A system whose subprocesses answer by the function \<open>respond\<close> of the command
  line, whose decoder rejects the byte 0xFF (which no UTF-8 text contains), and
  whose working directory is \<^verbatim>\<open>/repo/src\<close>, with no symbolic links: a rooted
  path resolves to itself, a relative one is taken from the working directory.
  And a handle on \<^verbatim>\<open>/repo\<close>.
\<close>

definition example_system :: "(str list \<Rightarrow> int \<times> bytes \<times> bytes) \<Rightarrow> system" where
  "example_system respond =
     \<lparr>popen = (\<lambda>d cmd. Inr (respond cmd)),
      subprocess_call = (\<lambda>cmd. Inr (fst (respond cmd))),
      decode = (\<lambda>b. if CHR 0xFF \<in> set b then Inl UnicodeDecodeError else Inr b),
      getcwd = Inr ''/repo/src'',
      resolve = (\<lambda>p. Inr (if proot p = [] then
                          \<lparr>proot = ''/'', pnames = [''repo'', ''src''] @ pnames p\<rparr> else p)),
      chdir = (\<lambda>d. Inr ())\<rparr>"

definition example_repo :: git where
  "example_repo = \<lparr>worktree = PurePath ''/repo'', gitdir = PurePath ''/repo/.git'', gitcmd = ''git''\<rparr>"

text \<open>
  A repository in which one file, \<^verbatim>\<open>docs/release notes.md\<close>, differs: \<open>on_branch\<close>
  answers as git does when the file was changed by a commit of the branch (only
  the three-dot diff against \<^verbatim>\<open>main\<close> reports it), \<open>in_worktree\<close> when the
  change is not committed (only the diff against \<^verbatim>\<open>HEAD\<close> reports it).
\<close>

definition on_branch :: "str list \<Rightarrow> int \<times> bytes \<times> bytes" where
  "on_branch cmd =
     (if ''main...HEAD'' \<in> set cmd then (0, ''docs/release notes.md'' @ [CHR 0x0A], [])
      else (0, [], []))"

definition in_worktree :: "str list \<Rightarrow> int \<times> bytes \<times> bytes" where
  "in_worktree cmd =
     (if ''HEAD'' \<in> set cmd then (0, ''docs/release notes.md'' @ [CHR 0x0A], [])
      else (0, [], []))"

text \<open>
  A process whose working directory has been removed: git exits with 128 and
  \<^verbatim>\<open>os.getcwd()\<close> raises \<^verbatim>\<open>FileNotFoundError\<close>, an \<^verbatim>\<open>OSError\<close>.
\<close>

definition removed_cwd_system :: system where
  "removed_cwd_system =
     \<lparr>popen = (\<lambda>d cmd. Inr (128, [], ''fatal: Unable to read current working directory'')),
      subprocess_call = (\<lambda>cmd. Inr 128),
      decode = (\<lambda>b. if CHR 0xFF \<in> set b then Inl UnicodeDecodeError else Inr b),
      getcwd = Inl (OSError ''FileNotFoundError(2, 'No such file or directory')''),
      resolve = Inr,
      chdir = (\<lambda>d. Inl (OSError ''FileNotFoundError(2, 'No such file or directory')''))\<rparr>"

text \<open>A checkout of branch \<^verbatim>\<open>main\<close> in \<^verbatim>\<open>/repo\<close>, as the two \<^verbatim>\<open>rev-parse\<close> queries see it.\<close>

definition on_main :: "str list \<Rightarrow> int \<times> bytes \<times> bytes" where
  "on_main cmd =
     (if ''--show-toplevel'' \<in> set cmd then (0, ''/repo'' @ [CHR 0x0A], [])
      else (0, ''main'' @ [CHR 0x0A], []))"

text \<open>No repository: every git command fails.\<close>

definition no_repository :: "str list \<Rightarrow> int \<times> bytes \<times> bytes" where
  "no_repository cmd = (128, [], ''fatal: not a git repository'')"

text \<open>
  A repository whose path is not valid UTF-8: git succeeds and prints the
  byte 0xFF, which does not decode.
\<close>

definition undecodable :: "str list \<Rightarrow> int \<times> bytes \<times> bytes" where
  "undecodable cmd = (0, [CHR 0xFF], [])"

text \<open>
  A repository in which one file, \<^verbatim>\<open>src/my file.py\<close>, differs: \<open>my_file_committed\<close>
  answers as git does when a commit changed it (\<^verbatim>\<open>diff-tree\<close> and the three-dot
  diff against \<^verbatim>\<open>main\<close> report it), \<open>my_file_uncommitted\<close> when the change is
  not committed (only the diff against \<^verbatim>\<open>HEAD\<close> reports it).
\<close>

definition my_file_committed :: "str list \<Rightarrow> int \<times> bytes \<times> bytes" where
  "my_file_committed cmd =
     (if ''diff-tree'' \<in> set cmd \<or> ''main...HEAD'' \<in> set cmd
      then (0, ''src/my file.py'' @ [CHR 0x0A], [])
      else (0, [], []))"

definition my_file_uncommitted :: "str list \<Rightarrow> int \<times> bytes \<times> bytes" where
  "my_file_uncommitted cmd =
     (if ''HEAD'' \<in> set cmd then (0, ''src/my file.py'' @ [CHR 0x0A], []) else (0, [], []))"

section \<open>Properties\<close>

subsection \<open>Substring test\<close>

lemma contains_sublist: "contains sub t \<longleftrightarrow> sublist sub t"
  by (induction t) (auto simp: sublist_Cons_right)

lemma contains_iff_append: "contains sub t \<longleftrightarrow> (\<exists>pre post. t = pre @ sub @ post)"
  by (simp add: contains_sublist sublist_def)

subsection \<open>Containment detection\<close>

text \<open>
  C7. Containment detection returns true if and only if \<^verbatim>\<open>/.dockerenv\<close>
  exists, or \<^verbatim>\<open>/run/.containerenv\<close> exists, or \<^verbatim>\<open>/proc/self/cgroup\<close> exists
  and its text contains \<^verbatim>\<open>docker\<close>; and whenever the cgroup file, if it exists,
  has text contents (reading it does not raise), the function returns, with
  false in every other case.
\<close>

theorem is_in_container_iff:
  "(is_in_container fs = Inr True \<longleftrightarrow>
      path_exists fs ''/.dockerenv'' \<or> path_exists fs ''/run/.containerenv'' \<or>
      (\<exists>pre post. fs ''/proc/self/cgroup'' = Some (Readable (pre @ ''docker'' @ post))))
   \<and> ((\<forall>e. fs ''/proc/self/cgroup'' \<noteq> Some (Unreadable e)) \<longrightarrow>
      is_in_container fs =
        Inr (path_exists fs ''/.dockerenv'' \<or> path_exists fs ''/run/.containerenv'' \<or>
             (\<exists>pre post. fs ''/proc/self/cgroup'' = Some (Readable (pre @ ''docker'' @ post)))))"
  by (auto simp: is_in_container_def Let_def path_exists_def read_text_def contains_iff_append
      split: option.splits node.splits)

theorem is_in_container_iff_witness:
  "(\<forall>e. [''/proc/self/cgroup'' \<mapsto> Readable ''1:name=systemd:/docker/abc''] ''/proc/self/cgroup''
        \<noteq> Some (Unreadable e))
   \<and> is_in_container [''/proc/self/cgroup'' \<mapsto> Readable ''1:name=systemd:/docker/abc''] = Inr True
   \<and> is_in_container [''/proc/self/cgroup'' \<mapsto> Readable ''0::/init.scope''] = Inr False"
proof -
  let ?fs = "[''/proc/self/cgroup'' \<mapsto> Readable ''1:name=systemd:/docker/abc'']"
  let ?gs = "[''/proc/self/cgroup'' \<mapsto> Readable ''0::/init.scope'']"
  have r: "\<forall>e. ?fs ''/proc/self/cgroup'' \<noteq> Some (Unreadable e)" by simp
  have d: "?fs ''/proc/self/cgroup'' = Some (Readable (''1:name=systemd:/'' @ ''docker'' @ ''/abc''))"
    by simp
  have "is_in_container ?fs =
      Inr (path_exists ?fs ''/.dockerenv'' \<or> path_exists ?fs ''/run/.containerenv'' \<or>
           (\<exists>pre post. ?fs ''/proc/self/cgroup'' = Some (Readable (pre @ ''docker'' @ post))))"
    using is_in_container_iff [of ?fs] r by blast
  moreover have "\<exists>pre post. ?fs ''/proc/self/cgroup'' = Some (Readable (pre @ ''docker'' @ post))"
    using d by blast
  ultimately have t: "is_in_container ?fs = Inr True" by simp
  have f: "is_in_container ?gs = Inr False"
    by (simp add: is_in_container_def path_exists_def read_text_def)
  from r t f show ?thesis by blast
qed

subsection \<open>Task registrar\<close>

lemma TaskRegistrar_init_Function:
  assumes "resolve_dependencies by_name deps = Inr gs"
  shows "TaskRegistrar_init by_name nm (Function f) deps ser =
     (if truthy (fn_varargs f) \<or> truthy (fn_keywords f) \<or> truthy (fn_defaults f) then
        Inl (GoalError ''Invalid action supplied, cannot accept varargs, keywords or defaults'')
      else if 1 < length (fn_args f) then
        Inl (GoalError
          ''Invalid action supplied, must accept either no args or else a single Context object'')
      else Inr \<lparr>serialize = ser, name = nm, dependencies = gs, task = FuncTask f\<rparr>)"
  using assms by (simp add: TaskRegistrar_init_def getargspec_def)

lemma truthy_iff: "x \<noteq> Some [] \<Longrightarrow> truthy x \<longleftrightarrow> x \<noteq> None"
  by (cases x) (auto simp: truthy_def)

text \<open>
  C3. For a plain function whose dependencies resolve, the constructor raises
  the invalid-action error (\<^verbatim>\<open>GoalError\<close>) if and only if the signature declares
  \<^verbatim>\<open>*varargs\<close>, \<^verbatim>\<open>**keywords\<close>, default values, or more than one fixed positional
  argument; with none of these and at most one argument it succeeds, and the
  task type is the generated \<^verbatim>\<open>FuncTask\<close>.
\<close>

theorem TaskRegistrar_init_invalid_action:
  assumes "argspec_ok f" and "resolve_dependencies by_name deps = Inr gs"
  shows "((\<exists>m. TaskRegistrar_init by_name nm (Function f) deps ser = Inl (GoalError m)) \<longleftrightarrow>
            fn_varargs f \<noteq> None \<or> fn_keywords f \<noteq> None \<or> fn_defaults f \<noteq> None \<or>
            1 < length (fn_args f))
       \<and> (fn_varargs f = None \<and> fn_keywords f = None \<and> fn_defaults f = None \<and>
          length (fn_args f) \<le> 1 \<longrightarrow>
            TaskRegistrar_init by_name nm (Function f) deps ser =
              Inr \<lparr>serialize = ser, name = nm, dependencies = gs, task = FuncTask f\<rparr>)"
  using assms
  by (auto simp: TaskRegistrar_init_Function truthy_iff argspec_ok_def)

theorem TaskRegistrar_init_invalid_action_witness:
  "argspec_ok \<lparr>fn_args = [''context''], fn_varargs = None, fn_keywords = None,
       fn_defaults = None, fn_body = (\<lambda>_. Inr (0::nat))\<rparr>
   \<and> resolve_dependencies Inr (Some [''compile'']) = Inr [''compile'']
   \<and> TaskRegistrar_init Inr ''test''
        (Function \<lparr>fn_args = [''context''], fn_varargs = None, fn_keywords = None,
           fn_defaults = None, fn_body = (\<lambda>_. Inr (0::nat))\<rparr> :: (unit, nat) action)
        (Some [''compile'']) True =
      Inr \<lparr>serialize = True, name = ''test'', dependencies = [''compile''],
        task = FuncTask \<lparr>fn_args = [''context''], fn_varargs = None, fn_keywords = None,
           fn_defaults = None, fn_body = (\<lambda>_. Inr (0::nat))\<rparr>\<rparr>"
proof -
  let ?f = "\<lparr>fn_args = [''context''], fn_varargs = None, fn_keywords = None,
       fn_defaults = None, fn_body = (\<lambda>_. Inr (0::nat))\<rparr>"
  have a: "argspec_ok ?f" by (simp add: argspec_ok_def)
  have r: "resolve_dependencies Inr (Some [''compile'']) = (Inr [''compile''] :: py_error + string list)"
    by (simp add: resolve_dependencies_def)
  have "TaskRegistrar_init Inr ''test'' (Function ?f :: (unit, nat) action) (Some [''compile'']) True =
      Inr \<lparr>serialize = True, name = ''test'', dependencies = [''compile''], task = FuncTask ?f\<rparr>"
    by (rule TaskRegistrar_init_invalid_action [OF a r, THEN conjunct2, rule_format]) simp
  with a r show ?thesis by simp
qed

text \<open>
  The action stored by the adapter's constructor is chosen by the constructor's
  arguments alone: another function in place of \<open>f\<close> gets the same strategy.
\<close>

lemma FuncTask_init_ignores_signature:
  assumes "FuncTask_init Task_init f cargs kwargs = Inr t"
  shows "FuncTask_init Task_init f' cargs kwargs =
     Inr (t\<lparr>self_action :=
            (case self_action t of Plain _ \<Rightarrow> Plain f' | Partial _ c \<Rightarrow> Partial f' c)\<rparr>)"
  using assms by (auto simp: FuncTask_init_def split: sum.splits if_splits)

text \<open>
  C1. The adapter is meant to choose by the arity of the wrapped function. The
  registrar accepts the zero-argument function below, and calling it with no
  argument succeeds; but the adapter built with one positional constructor
  argument (the context) stores the partial application, and \<^verbatim>\<open>execute\<close> calls
  the zero-argument function with the context: \<^verbatim>\<open>TypeError\<close>.
\<close>

theorem FuncTask_strategy_ignores_arity:
  "TaskRegistrar_init Inr ''compile''
      (Function \<lparr>fn_args = [], fn_varargs = None, fn_keywords = None, fn_defaults = None,
         fn_body = (\<lambda>_. Inr (0::nat))\<rparr> :: (unit, nat) action) None True =
     Inr \<lparr>serialize = True, name = ''compile'', dependencies = ([] :: string list),
       task = FuncTask \<lparr>fn_args = [], fn_varargs = None, fn_keywords = None,
         fn_defaults = None, fn_body = (\<lambda>_. Inr (0::nat))\<rparr>\<rparr>
   \<and> call \<lparr>fn_args = [], fn_varargs = None, fn_keywords = None, fn_defaults = None,
         fn_body = (\<lambda>_. Inr (0::nat))\<rparr> [] = Inr 0
   \<and> FuncTask_init (\<lambda>a k. Inr (hd a))
        \<lparr>fn_args = [], fn_varargs = None, fn_keywords = None, fn_defaults = None,
         fn_body = (\<lambda>_. Inr (0::nat))\<rparr> [7] [] =
      Inr \<lparr>self_context = 7,
        self_action = Partial \<lparr>fn_args = [], fn_varargs = None, fn_keywords = None,
          fn_defaults = None, fn_body = (\<lambda>_. Inr (0::nat))\<rparr> 7\<rparr>
   \<and> execute \<lparr>self_context = 7,
        self_action = Partial \<lparr>fn_args = [], fn_varargs = None, fn_keywords = None,
          fn_defaults = None, fn_body = (\<lambda>_. Inr (0::nat))\<rparr> 7\<rparr> = Inl TypeError"
  by (simp add: TaskRegistrar_init_def resolve_dependencies_def getargspec_def truthy_def
      call_def FuncTask_init_def execute_def)

subsection \<open>Exit codes\<close>

lemma check_result_None:
  "check_result cmd n None =
     (if n = 0 then Inr ()
      else Inl (GitException (join '' '' cmd @ '' failed with exit code '' @ str_int n)))"
  by (simp add: check_result_def exit_code_message_def)


lemma check_call_result:
  "subprocess_call sys (create_git_cmdline g args) = Inr n \<Longrightarrow>
   check_call sys g args =
     (if n = 0 then Inr ()
      else Inl (GitException
        (join '' '' (create_git_cmdline g args) @ '' failed with exit code '' @ str_int n)))"
  by (simp add: check_call_def Let_def check_result_None)

text \<open>
  C9. When the subprocess of \<^verbatim>\<open>commit(message)\<close> or \<^verbatim>\<open>add(paths...)\<close> exits
  with code \<open>n\<close>, the operation returns \<^verbatim>\<open>None\<close> for \<open>n = 0\<close> and otherwise
  raises \<^verbatim>\<open>GitException\<close> with the message
  \<^verbatim>\<open><cmd> failed with exit code <n>\<close>, built from the command line and the exit
  code only.
\<close>

theorem commit_add_exit_code:
  "(subprocess_call sys (create_git_cmdline g [''commit'', ''--all'', ''--message'', message]) = Inr n \<longrightarrow>
      commit sys g message =
        (if n = 0 then Inr ()
         else Inl (GitException
           (join '' '' (create_git_cmdline g [''commit'', ''--all'', ''--message'', message])
            @ '' failed with exit code '' @ str_int n))))
   \<and> (subprocess_call sys (create_git_cmdline g (''add'' # map path_str paths)) = Inr n \<longrightarrow>
      add sys g paths =
        (if n = 0 then Inr ()
         else Inl (GitException
           (join '' '' (create_git_cmdline g (''add'' # map path_str paths))
            @ '' failed with exit code '' @ str_int n))))"
  by (simp add: commit_def add_def check_call_result)

lemma example_cmdline:
  "create_git_cmdline example_repo args = [''git'', ''--git-dir=/repo/.git'', ''--work-tree=/repo''] @ args"
  by (simp add: create_git_cmdline_def example_repo_def PurePath_def splitroot_def path_str_def)

theorem commit_add_exit_code_witness:
  "commit (example_system (\<lambda>cmd. (1, [], ''fatal: no changes''))) example_repo ''msg'' =
     Inl (GitException
       ''git --git-dir=/repo/.git --work-tree=/repo commit --all --message msg failed with exit code 1'')
   \<and> add (example_system (\<lambda>cmd. (0, [], []))) example_repo [PurePath ''a.txt''] = Inr ()"
proof -
  let ?s1 = "example_system (\<lambda>cmd. (1, [], ''fatal: no changes''))"
  let ?s0 = "example_system (\<lambda>cmd. (0, [], []))"
  have h1: "subprocess_call ?s1 (create_git_cmdline example_repo [''commit'', ''--all'', ''--message'', ''msg'']) = Inr 1"
    by (simp add: example_system_def)
  have h0: "subprocess_call ?s0 (create_git_cmdline example_repo (''add'' # map path_str [PurePath ''a.txt''])) = Inr 0"
    by (simp add: example_system_def)
  have s: "str_int 1 = ''1''" by (simp add: str_int_def digits.simps)
  from commit_add_exit_code [of ?s1 example_repo "''msg''" 1, THEN conjunct1, rule_format, OF h1]
  have c: "commit ?s1 example_repo ''msg'' = Inl (GitException
       ''git --git-dir=/repo/.git --work-tree=/repo commit --all --message msg failed with exit code 1'')"
    by (simp add: example_cmdline s)
  from commit_add_exit_code [where sys = ?s0 and g = example_repo and n = 0
      and paths = "[PurePath ''a.txt'']", THEN conjunct2, rule_format, OF h0]
  have a: "add ?s0 example_repo [PurePath ''a.txt''] = Inr ()" by simp
  from c a show ?thesis by simp
qed

subsection \<open>Queries\<close>





subsection \<open>Construction\<close>




subsection \<open>Discovery\<close>







subsection \<open>Relative paths\<close>

lemma PurePath_names_nonempty: "[] \<notin> set (pnames (PurePath s))"
  by (simp add: PurePath_def split: prod.splits)

lemma joinpath_names_nonempty:
  "[] \<notin> set (pnames p) \<Longrightarrow> [] \<notin> set (pnames (joinpath p s))"
  using PurePath_names_nonempty [of s] by (simp add: joinpath_def Let_def)

lemma take_length_eq_prefix: "take (length ys) xs = ys \<longleftrightarrow> prefix ys xs"
  by (metis append_eq_conv_conj prefix_def)

text \<open>
  \<^verbatim>\<open>relative_to\<close> compares names and resolves nothing: for paths whose names
  are not empty (every parsed path) it succeeds exactly when the roots are
  equal and the names of \<open>other\<close> are the first names of \<open>p\<close>. The only error
  of the relativization is \<^verbatim>\<open>ValueError\<close>.
\<close>

lemma relative_to_prefix:
  assumes "[] \<notin> set (pnames p)" and "[] \<notin> set (pnames other)"
  shows "relative_to p other =
     (if proot p = proot other \<and> prefix (pnames other) (pnames p)
      then Inr \<lparr>proot = [], pnames = drop (length (pnames other)) (pnames p)\<rparr>
      else Inl ValueError)"
proof (cases "proot p = []")
  case pr: True
  show ?thesis
  proof (cases "proot other = []")
    case True
    with pr show ?thesis
      by (cases "pnames other = []")
        (auto simp: relative_to_def abs_parts_def Let_def take_length_eq_prefix)
  next
    case False
    with pr assms show ?thesis
      by (cases "pnames p") (auto simp: relative_to_def abs_parts_def Let_def)
  qed
next
  case pr: False
  show ?thesis
  proof (cases "proot other = []")
    case True
    with pr assms show ?thesis
      by (cases "pnames other") (auto simp: relative_to_def abs_parts_def Let_def)
  next
    case False
    with pr show ?thesis
      by (auto simp: relative_to_def abs_parts_def Let_def take_length_eq_prefix)
  qed
qed

lemma fix_git_relative_path_error:
  "fix_git_relative_path g f rel = Inl e \<Longrightarrow> e = ValueError"
  by (auto simp: fix_git_relative_path_def relative_to_def Let_def split: sum.splits if_splits)

lemma fix_all_error: "fix_all g rel fs = Inl e \<Longrightarrow> e = ValueError"
  by (induction fs arbitrary: e)
     (auto split: sum.splits dest: fix_git_relative_path_error)

text \<open>
  C10. The reported path \<^verbatim>\<open>src/my file.py\<close> lies inside \<^verbatim>\<open>/repo/src\<close>, and
  re-relativizing it gives \<^verbatim>\<open>my file.py\<close>. Yet \<^verbatim>\<open>changes_in\<close>, and
  \<^verbatim>\<open>changed_files\<close> when the three-dot diff reports the path, raise
  \<^verbatim>\<open>ValueError\<close>: the output is cut at the space, and the word \<^verbatim>\<open>file.py\<close> is
  re-relativized as if git had reported it. When the diff against \<^verbatim>\<open>HEAD\<close>
  reports the same path, \<^verbatim>\<open>changed_files\<close> returns it.
\<close>

theorem relativization_fails_inside:
  "fix_git_relative_path example_repo ''src/my file.py'' (PurePath ''/repo/src'') = Inr ''my file.py''
   \<and> changes_in (example_system my_file_committed) example_repo ''HEAD''
        (Some (PStr ''/repo/src'')) = Inl ValueError
   \<and> changed_files (example_system my_file_committed) example_repo (Some ''main'') False
        (Some (PStr ''/repo/src'')) = Inl ValueError
   \<and> changed_files (example_system my_file_uncommitted) example_repo (Some ''main'') False
        (Some (PStr ''/repo/src'')) = Inr {''my file.py''}"
  by (simp add: changes_in_def changed_files_def changed_files_list_def relative_to_arg_def
      check_output_def create_git_cmdline_def invoke_def example_system_def example_repo_def
      my_file_committed_def my_file_uncommitted_def check_result_def cleanse_def strip_def
      isspace_def is_linebreak_def splitlines_def str_split_def fix_git_relative_path_def
      relative_to_def abs_parts_def joinpath_def PurePath_def splitroot_def path_str_def Let_def)

subsection \<open>Changed files\<close>

text \<open>
  What \<^verbatim>\<open>files\<close> holds when the git commands succeed: the lines of the diff
  against \<^verbatim>\<open>HEAD\<close>, then the whitespace-separated words of the other two
  outputs.
\<close>

lemma changed_files_list_union:
  assumes "check_output sys g
             ([''diff'', ''--name-only'', ''HEAD''] @ [''--'', path_str (relative_to_arg g rel_arg)])
           = Inr uncommitted"
    and "\<And>c. from_commit = Some c \<Longrightarrow> c \<noteq> [] \<Longrightarrow>
           check_output sys g
             ([''diff'', ''--name-only'', c @ ''...HEAD''] @ [''--'', path_str (relative_to_arg g rel_arg)])
           = Inr committed"
    and "include_untracked \<Longrightarrow>
           check_output sys g
             ([''ls-files'', ''--other'', ''--exclude-standard'', ''--full-name'']
              @ [''--'', path_str (relative_to_arg g rel_arg)])
           = Inr untracked"
  shows "changed_files_list sys g from_commit include_untracked rel_arg =
     Inr (splitlines uncommitted
          @ (if truthy from_commit then str_split committed else [])
          @ (if include_untracked then str_split untracked else []))"
  using assms
  by (cases from_commit) (auto simp: changed_files_list_def Let_def truthy_def)

text \<open>
  C2. The files git reports are its output lines. A path with a space that
  the diff against \<^verbatim>\<open>HEAD\<close> reports comes back whole (\<^verbatim>\<open>splitlines\<close>), but the
  same path reported by the three-dot diff comes back as two paths, because
  that output is cut at every whitespace (\<^verbatim>\<open>split\<close>).
\<close>

theorem changed_files_splits_at_spaces:
  "changed_files (example_system in_worktree) example_repo (Some ''main'') False None =
     Inr {''docs/release notes.md''}
   \<and> changed_files (example_system on_branch) example_repo (Some ''main'') False None =
     Inr {''docs/release'', ''notes.md''}"
  by (simp add: changed_files_def changed_files_list_def relative_to_arg_def check_output_def
      create_git_cmdline_def invoke_def example_system_def example_repo_def on_branch_def
      in_worktree_def check_result_def cleanse_def strip_def isspace_def is_linebreak_def
      splitlines_def str_split_def fix_git_relative_path_def relative_to_def abs_parts_def
      joinpath_def PurePath_def splitroot_def path_str_def Let_def)

subsection \<open>The process-wide handle\<close>

lemma get_git_cached_value: "Git_slot st = Value v \<Longrightarrow> get_git sys st = (Inr v, st)"
  by (simp add: get_git_def)

lemma get_git_times_cached:
  "Git_slot st = Value v \<Longrightarrow> get_git_times sys n st = (replicate n (Inr v), st)"
  by (induction n) (simp_all add: get_git_cached_value)

lemma get_git_handler_returns:
  "get_git_handler sys st = (Inr v, st1) \<Longrightarrow>
     v = None \<and> st1 = st\<lparr>Git_slot := Value None\<rparr>"
  by (auto simp: get_git_handler_def split: sum.splits)

lemma get_git_returns:
  assumes "get_git sys st = (Inr v, st1)"
  shows "Git_slot st1 = Value v \<and> mounts st1 \<le> Suc (mounts st)"
proof (cases "Git_slot st")
  case NO
  with assms show ?thesis
    by (auto simp: get_git_def Let_def split: sum.splits py_error.splits
        dest!: get_git_handler_returns)
next
  case (Value w)
  with assms show ?thesis by (simp add: get_git_def)
qed

lemma get_git_handler_raises:
  "get_git_handler sys st = (Inl e, st1) \<Longrightarrow> st1 = st \<and> getcwd sys = Inl e"
  by (auto simp: get_git_handler_def split: sum.splits)

lemma get_git_raises:
  assumes "Git_slot st = NO" and "get_git sys st = (Inl e, st1)"
  shows "st1 = st\<lparr>mounts := Suc (mounts st)\<rparr>"
  using assms
  by (auto simp: get_git_def Let_def split: sum.splits py_error.splits
      dest!: get_git_handler_raises)

lemma get_git_mounts_once:
  "Git_slot st = NO \<Longrightarrow> mounts (snd (get_git sys st)) = Suc (mounts st)"
  by (auto simp: get_git_def get_git_handler_def Let_def split: sum.splits py_error.splits)

text \<open>
  C4, as stated, fails when the first call raises: with the working directory
  removed, \<^verbatim>\<open>mount\<close> raises \<^verbatim>\<open>GitException\<close>, the handler's \<^verbatim>\<open>os.getcwd()\<close>
  raises before the slot is assigned, and the second call runs discovery again.
\<close>

theorem get_git_discovers_twice:
  "get_git_times removed_cwd_system 2 \<lparr>Git_slot = NO, mounts = 0\<rparr> =
     ([Inl (OSError ''FileNotFoundError(2, 'No such file or directory')''),
       Inl (OSError ''FileNotFoundError(2, 'No such file or directory')'')],
      \<lparr>Git_slot = NO, mounts = 2\<rparr>)"
proof -
  have m: "mount removed_cwd_system None None =
      Inl (GitException ''fatal: Unable to read current working directory'')"
    by (simp add: mount_def mount_cmd_def mount_invoke_def invoke_def removed_cwd_system_def
        check_result_def)
  have g: "get_git removed_cwd_system \<lparr>Git_slot = NO, mounts = k\<rparr> =
      (Inl (OSError ''FileNotFoundError(2, 'No such file or directory')''),
       \<lparr>Git_slot = NO, mounts = Suc k\<rparr>)" for k
    by (simp add: get_git_def m get_git_handler_def) (simp add: removed_cwd_system_def)
  show ?thesis
    by (simp add: numeral_2_eq_2 g)
qed

text \<open>
  C4, amended. A call on the uninitialized slot runs discovery once, whatever
  its outcome. It returns the handle and caches it when \<^verbatim>\<open>mount\<close> and the
  branch query made for the log message succeed; it returns \<^verbatim>\<open>None\<close> and caches
  it when either raises \<^verbatim>\<open>GitException\<close> and \<^verbatim>\<open>os.getcwd()\<close> succeeds in the
  handler. Whenever a call returns, the slot holds what it returned, and every
  later call, in any number and whatever the system does by then, returns that
  same outcome and leaves the state, the count of discoveries included,
  unchanged. The call raises when \<^verbatim>\<open>mount\<close> or the branch query raises an error
  other than \<^verbatim>\<open>GitException\<close>, or when \<^verbatim>\<open>os.getcwd()\<close> raises in the handler;
  a call that raises leaves the slot uninitialized, and the next call runs
  discovery again.
\<close>

theorem get_git_cached:
  "(Git_slot st = NO \<and> mount sys None None = Inr g \<and> branch_name sys g = Inr b \<longrightarrow>
      get_git sys st = (Inr (Some g), st\<lparr>mounts := Suc (mounts st), Git_slot := Value (Some g)\<rparr>))
   \<and> (Git_slot st = NO \<and> mount sys None None = Inl (GitException m) \<and> getcwd sys = Inr d \<longrightarrow>
      get_git sys st = (Inr None, st\<lparr>mounts := Suc (mounts st), Git_slot := Value None\<rparr>))
   \<and> (Git_slot st = NO \<and> mount sys None None = Inr g \<and>
        branch_name sys g = Inl (GitException m) \<and> getcwd sys = Inr d \<longrightarrow>
      get_git sys st = (Inr None, st\<lparr>mounts := Suc (mounts st), Git_slot := Value None\<rparr>))
   \<and> (get_git sys st = (Inr v, st1) \<longrightarrow>
        Git_slot st1 = Value v \<and> mounts st1 \<le> Suc (mounts st) \<and>
        get_git_times sys' n st1 = (replicate n (Inr v), st1))
   \<and> (Git_slot st = Value v \<longrightarrow> get_git sys st = (Inr v, st))
   \<and> (Git_slot st = NO \<longrightarrow> mounts (snd (get_git sys st)) = Suc (mounts st))
   \<and> (Git_slot st = NO \<and> mount sys None None = Inl e \<and> (\<forall>x. e \<noteq> GitException x) \<longrightarrow>
      get_git sys st = (Inl e, st\<lparr>mounts := Suc (mounts st)\<rparr>))
   \<and> (Git_slot st = NO \<and> mount sys None None = Inr g \<and> branch_name sys g = Inl e \<and>
        (\<forall>x. e \<noteq> GitException x) \<longrightarrow>
      get_git sys st = (Inl e, st\<lparr>mounts := Suc (mounts st)\<rparr>))
   \<and> (Git_slot st = NO \<and> mount sys None None = Inl (GitException m) \<and> getcwd sys = Inl e \<longrightarrow>
      get_git sys st = (Inl e, st\<lparr>mounts := Suc (mounts st)\<rparr>))
   \<and> (Git_slot st = NO \<and> mount sys None None = Inr g \<and>
        branch_name sys g = Inl (GitException m) \<and> getcwd sys = Inl e \<longrightarrow>
      get_git sys st = (Inl e, st\<lparr>mounts := Suc (mounts st)\<rparr>))
   \<and> (Git_slot st = NO \<and> get_git sys st = (Inl e, st1) \<longrightarrow>
        st1 = st\<lparr>mounts := Suc (mounts st)\<rparr> \<and> Git_slot st1 = NO \<and>
        mounts (snd (get_git sys' st1)) = Suc (Suc (mounts st)))"
proof (intro conjI impI)
  assume "Git_slot st = NO \<and> mount sys None None = Inr g \<and> branch_name sys g = Inr b"
  then show "get_git sys st =
      (Inr (Some g), st\<lparr>mounts := Suc (mounts st), Git_slot := Value (Some g)\<rparr>)"
    by (simp add: get_git_def)
next
  assume "Git_slot st = NO \<and> mount sys None None = Inl (GitException m) \<and> getcwd sys = Inr d"
  then show "get_git sys st = (Inr None, st\<lparr>mounts := Suc (mounts st), Git_slot := Value None\<rparr>)"
    by (simp add: get_git_def get_git_handler_def)
next
  assume "Git_slot st = NO \<and> mount sys None None = Inr g \<and>
        branch_name sys g = Inl (GitException m) \<and> getcwd sys = Inr d"
  then show "get_git sys st = (Inr None, st\<lparr>mounts := Suc (mounts st), Git_slot := Value None\<rparr>)"
    by (simp add: get_git_def get_git_handler_def)
next
  assume a: "get_git sys st = (Inr v, st1)"
  from get_git_returns [OF a] get_git_times_cached [of st1 v sys' n]
  show "Git_slot st1 = Value v" "mounts st1 \<le> Suc (mounts st)"
    "get_git_times sys' n st1 = (replicate n (Inr v), st1)"
    by simp_all
next
  assume "Git_slot st = Value v"
  then show "get_git sys st = (Inr v, st)" by (rule get_git_cached_value)
next
  assume "Git_slot st = NO"
  then show "mounts (snd (get_git sys st)) = Suc (mounts st)" by (rule get_git_mounts_once)
next
  assume "Git_slot st = NO \<and> mount sys None None = Inl e \<and> (\<forall>x. e \<noteq> GitException x)"
  then show "get_git sys st = (Inl e, st\<lparr>mounts := Suc (mounts st)\<rparr>)"
    by (cases e) (simp_all add: get_git_def)
next
  assume "Git_slot st = NO \<and> mount sys None None = Inr g \<and> branch_name sys g = Inl e \<and>
        (\<forall>x. e \<noteq> GitException x)"
  then show "get_git sys st = (Inl e, st\<lparr>mounts := Suc (mounts st)\<rparr>)"
    by (cases e) (simp_all add: get_git_def)
next
  assume "Git_slot st = NO \<and> mount sys None None = Inl (GitException m) \<and> getcwd sys = Inl e"
  then show "get_git sys st = (Inl e, st\<lparr>mounts := Suc (mounts st)\<rparr>)"
    by (simp add: get_git_def get_git_handler_def)
next
  assume "Git_slot st = NO \<and> mount sys None None = Inr g \<and>
        branch_name sys g = Inl (GitException m) \<and> getcwd sys = Inl e"
  then show "get_git sys st = (Inl e, st\<lparr>mounts := Suc (mounts st)\<rparr>)"
    by (simp add: get_git_def get_git_handler_def)
next
  assume a: "Git_slot st = NO \<and> get_git sys st = (Inl e, st1)"
  then have s: "st1 = st\<lparr>mounts := Suc (mounts st)\<rparr>"
    using get_git_raises by blast
  with a have n: "Git_slot st1 = NO" by simp
  from get_git_mounts_once [OF n, of sys'] s
  show "st1 = st\<lparr>mounts := Suc (mounts st)\<rparr>" "Git_slot st1 = NO"
    "mounts (snd (get_git sys' st1)) = Suc (Suc (mounts st))"
    using n by simp_all
qed

theorem get_git_cached_witness:
  "get_git_times (example_system on_main) 3 \<lparr>Git_slot = NO, mounts = 0\<rparr> =
     ([Inr (Some example_repo), Inr (Some example_repo), Inr (Some example_repo)],
      \<lparr>Git_slot = Value (Some example_repo), mounts = 1\<rparr>)
   \<and> get_git_times (example_system no_repository) 3 \<lparr>Git_slot = NO, mounts = 0\<rparr> =
     ([Inr None, Inr None, Inr None], \<lparr>Git_slot = Value None, mounts = 1\<rparr>)
   \<and> get_git_times (example_system undecodable) 2 \<lparr>Git_slot = NO, mounts = 0\<rparr> =
     ([Inl UnicodeDecodeError, Inl UnicodeDecodeError], \<lparr>Git_slot = NO, mounts = 2\<rparr>)
   \<and> get_git removed_cwd_system \<lparr>Git_slot = NO, mounts = 0\<rparr> =
     (Inl (OSError ''FileNotFoundError(2, 'No such file or directory')''),
      \<lparr>Git_slot = NO, mounts = 1\<rparr>)"
proof -
  let ?s = "example_system on_main" and ?n = "example_system no_repository"
  let ?st = "\<lparr>Git_slot = NO, mounts = 0\<rparr>"
  have repo: "example_repo =
      \<lparr>worktree = \<lparr>proot = ''/'', pnames = [''repo'']\<rparr>,
       gitdir = \<lparr>proot = ''/'', pnames = [''repo'', ''.git'']\<rparr>, gitcmd = ''git''\<rparr>"
    by (simp add: example_repo_def PurePath_def splitroot_def)
  have m: "mount ?s None None = Inr example_repo"
    by (simp add: repo mount_def mount_cmd_def mount_invoke_def invoke_def example_system_def
        on_main_def check_result_def cleanse_def strip_def isspace_def Git_init_def PurePath_def
        splitroot_def joinpath_def)
  have b: "branch_name ?s example_repo = Inr (Some ''main'')"
    by (simp add: branch_name_def check_output_def example_cmdline invoke_def
        example_system_def on_main_def check_result_def cleanse_def strip_def isspace_def Let_def)
  have h1: "Git_slot ?st = NO \<and> mount ?s None None = Inr example_repo \<and>
      branch_name ?s example_repo = Inr (Some ''main'')"
    using m b by simp
  have first: "get_git ?s ?st =
      (Inr (Some example_repo), \<lparr>Git_slot = Value (Some example_repo), mounts = 1\<rparr>)"
    using get_git_cached [where sys = ?s and st = ?st, THEN conjunct1, rule_format, OF h1]
    by simp
  have rest: "get_git_times ?s 2 \<lparr>Git_slot = Value (Some example_repo), mounts = 1\<rparr> =
      (replicate 2 (Inr (Some example_repo)), \<lparr>Git_slot = Value (Some example_repo), mounts = 1\<rparr>)"
    using get_git_cached [where sys = ?s and st = ?st and sys' = ?s and n = 2,
        THEN conjunct2, THEN conjunct2, THEN conjunct2, THEN conjunct1, rule_format, OF first]
    by simp
  have a: "get_git_times ?s 3 ?st =
     ([Inr (Some example_repo), Inr (Some example_repo), Inr (Some example_repo)],
      \<lparr>Git_slot = Value (Some example_repo), mounts = 1\<rparr>)"
    using first rest by (simp add: numeral_3_eq_3 numeral_2_eq_2)
  have mn: "mount ?n None None = Inl (GitException ''fatal: not a git repository'')"
    by (simp add: mount_def mount_cmd_def mount_invoke_def invoke_def example_system_def
        no_repository_def check_result_def)
  have h2: "Git_slot ?st = NO \<and>
      mount ?n None None = Inl (GitException ''fatal: not a git repository'') \<and>
      getcwd ?n = Inr ''/repo/src''"
    using mn by (simp add: example_system_def)
  have firstn: "get_git ?n ?st = (Inr None, \<lparr>Git_slot = Value None, mounts = 1\<rparr>)"
    using get_git_cached [where sys = ?n and st = ?st, THEN conjunct2, THEN conjunct1,
        rule_format, OF h2]
    by simp
  have restn: "get_git_times ?n 2 \<lparr>Git_slot = Value None, mounts = 1\<rparr> =
      (replicate 2 (Inr None), \<lparr>Git_slot = Value None, mounts = 1\<rparr>)"
    using get_git_cached [where sys = ?n and st = ?st and sys' = ?n and n = 2,
        THEN conjunct2, THEN conjunct2, THEN conjunct2, THEN conjunct1, rule_format, OF firstn]
    by simp
  have c: "get_git_times ?n 3 ?st =
     ([Inr None, Inr None, Inr None], \<lparr>Git_slot = Value None, mounts = 1\<rparr>)"
    using firstn restn by (simp add: numeral_3_eq_3 numeral_2_eq_2)
  let ?u = "example_system undecodable"
  have mu: "mount ?u None None = Inl UnicodeDecodeError"
    by (simp add: mount_def mount_cmd_def mount_invoke_def invoke_def example_system_def
        undecodable_def check_result_def cleanse_def)
  have h3: "Git_slot \<lparr>Git_slot = NO, mounts = k\<rparr> = NO \<and>
      mount ?u None None = Inl UnicodeDecodeError \<and> (\<forall>x. UnicodeDecodeError \<noteq> GitException x)" for k
    using mu by simp
  have u: "get_git ?u \<lparr>Git_slot = NO, mounts = k\<rparr> =
      (Inl UnicodeDecodeError, \<lparr>Git_slot = NO, mounts = Suc k\<rparr>)" for k
    using get_git_cached [where sys = ?u and st = "\<lparr>Git_slot = NO, mounts = k\<rparr>"
        and e = UnicodeDecodeError, THEN conjunct2, THEN conjunct2, THEN conjunct2, THEN conjunct2,
        THEN conjunct2, THEN conjunct2, THEN conjunct1, rule_format, OF h3]
    by simp
  have u2: "get_git_times ?u 2 ?st =
      ([Inl UnicodeDecodeError, Inl UnicodeDecodeError], \<lparr>Git_slot = NO, mounts = 2\<rparr>)"
    by (simp add: numeral_2_eq_2 u)
  have mr: "mount removed_cwd_system None None =
      Inl (GitException ''fatal: Unable to read current working directory'')"
    by (simp add: mount_def mount_cmd_def mount_invoke_def invoke_def removed_cwd_system_def
        check_result_def)
  have h4: "Git_slot ?st = NO \<and>
      mount removed_cwd_system None None =
        Inl (GitException ''fatal: Unable to read current working directory'') \<and>
      getcwd removed_cwd_system = Inl (OSError ''FileNotFoundError(2, 'No such file or directory')'')"
    using mr by (simp add: removed_cwd_system_def)
  have r: "get_git removed_cwd_system ?st =
      (Inl (OSError ''FileNotFoundError(2, 'No such file or directory')''),
       \<lparr>Git_slot = NO, mounts = 1\<rparr>)"
    using get_git_cached [where sys = removed_cwd_system and st = ?st,
        THEN conjunct2, THEN conjunct2, THEN conjunct2, THEN conjunct2, THEN conjunct2,
        THEN conjunct2, THEN conjunct2, THEN conjunct2, THEN conjunct1, rule_format, OF h4]
    by simp
  from a c u2 r show ?thesis by simp
qed

end
